theory Spec2Isabelle
  imports Main "HOL-Library.Word"
begin

section \<open>The Structured Output component of langflow\<close>

text \<open>
  A shallow embedding of \<^verbatim>\<open>StructuredOutputComponent.build_structured_output\<close>
  (\<^verbatim>\<open>src/backend/base/langflow/components/helpers/structured_output.py\<close>).
  The method raises exceptions, synthesises pydantic classes and calls a language-model
  client supplied by the host. Exceptions are values of a sum type, class synthesis and
  the calls made to the client are recorded in an explicit runtime state that the method
  takes and returns, and the client is a parameter of the component.
\<close>

subsection \<open>Exceptions\<close>

text \<open>
  \<^verbatim>\<open>TypeError\<close> and \<^verbatim>\<open>ValueError\<close> are the two exceptions the method raises itself,
  each with its message. \<^verbatim>\<open>AttributeError\<close> is what Python raises for a method the
  receiver does not have. \<open>UnsupportedType\<close> is the Schema Builder's failure on a
  declared type it does not know. \<open>OtherError\<close> (class name, message) stands for any
  other exception the client may raise.
\<close>

datatype py_error =
    TypeError string
  | ValueError string
  | AttributeError string
  | UnsupportedType string
  | OtherError string string

subsection \<open>Pydantic record types\<close>

text \<open>
  A pydantic model class is its identity (\<open>mt_id\<close>: classes are Python objects, two
  classes built by two calls are two objects even when they look alike), its name and its
  ordered fields; a field is a name, a type annotation and the description given to
  \<^verbatim>\<open>Field(description=...)\<close>. An annotation is one of the primitive and collection
  types of the table input (\<^verbatim>\<open>str\<close>, \<^verbatim>\<open>int\<close>, \<^verbatim>\<open>float\<close>, \<^verbatim>\<open>bool\<close>, \<^verbatim>\<open>list\<close>,
  \<^verbatim>\<open>dict\<close>), a homogeneous list \<^verbatim>\<open>list[T]\<close>, or a model class.
\<close>

datatype annotation =
    AStr
  | AInt
  | AFloat
  | ABool
  | AListAny
  | ADictAny
  | AListOf annotation
  | AModel model_type
and model_type =
    ModelType (mt_id: nat) (mt_name: string) (mt_fields: "field_info list")
and field_info =
    FieldInfo (fi_name: string) (fi_annotation: annotation) (fi_description: string)

subsection \<open>Python values\<close>

text \<open>
  The values that travel through the method: what the client returns and what
  \<^verbatim>\<open>model_dump\<close> produces. A float is carried as its 64 bits and never computed with.
  A \<^verbatim>\<open>dict\<close> is an association list (Python dictionaries keep insertion order).
  \<open>VModel T kvs\<close> is an instance of the pydantic class \<open>T\<close> with attribute values \<open>kvs\<close>.
\<close>

datatype pyval =
    VNone
  | VStr string
  | VInt int
  | VFloat "64 word"
  | VBool bool
  | VList "pyval list"
  | VDict "(string \<times> pyval) list"
  | VModel model_type "(string \<times> pyval) list"

text \<open>\<^verbatim>\<open>isinstance(output, BaseModel)\<close>: the value is an instance of some pydantic class.\<close>

fun isinstance_BaseModel :: "pyval \<Rightarrow> bool" where
  "isinstance_BaseModel (VModel T kvs) = True"
| "isinstance_BaseModel v = False"

text \<open>
  Pydantic's \<^verbatim>\<open>model_dump()\<close> in its default (python) mode: the instance becomes a
  dictionary from field name to value, and every model instance nested in a value
  (directly, in a list or in a dictionary) becomes a dictionary in turn. Other values are
  returned as they are.
\<close>

fun dump_value :: "pyval \<Rightarrow> pyval" where
  "dump_value (VModel T kvs) = VDict (map (\<lambda>kv. (fst kv, dump_value (snd kv))) kvs)"
| "dump_value (VList vs) = VList (map dump_value vs)"
| "dump_value (VDict kvs) = VDict (map (\<lambda>kv. (fst kv, dump_value (snd kv))) kvs)"
| "dump_value v = v"

text \<open>
  A value that is not a model instance has no \<^verbatim>\<open>model_dump\<close> method: calling it raises
  \<^verbatim>\<open>AttributeError\<close>.
\<close>

fun model_dump :: "pyval \<Rightarrow> py_error + (string \<times> pyval) list" where
  "model_dump (VModel T kvs) = Inr (map (\<lambda>kv. (fst kv, dump_value (snd kv))) kvs)"
| "model_dump v = Inl (AttributeError ''model_dump'')"

text \<open>
  What pydantic guarantees of an instance it has validated against an annotation: the
  value has the annotated type; an instance of a model class \<open>T\<close> is of that very class
  and holds one value per field of \<open>T\<close>, in the order of the fields, each validated
  against the field's annotation.
\<close>

function (sequential) validated :: "annotation \<Rightarrow> pyval \<Rightarrow> bool" where
  "validated AStr (VStr s) = True"
| "validated AInt (VInt i) = True"
| "validated AFloat (VFloat x) = True"
| "validated ABool (VBool b) = True"
| "validated AListAny (VList vs) = True"
| "validated ADictAny (VDict kvs) = True"
| "validated (AListOf a) (VList vs) = list_all (validated a) vs"
| "validated (AModel T) (VModel T' kvs) =
     (T' = T \<and> map fst kvs = map fi_name (mt_fields T) \<and>
      list_all (\<lambda>p. validated (fi_annotation (fst p)) (snd (snd p))) (zip (mt_fields T) kvs))"
| "validated a v = False"
  by pat_completeness auto
termination
proof (relation "measure (\<lambda>(a, v). size v)")
  show "wf (measure (\<lambda>(a :: annotation, v :: pyval). size v))"
    by simp
next
  fix a :: annotation and vs :: "pyval list" and x :: pyval
  assume "x \<in> set vs"
  then have "size x \<le> size_list size vs"
    by (rule size_list_estimation') simp
  then show "((a, x), (AListOf a, VList vs)) \<in> measure (\<lambda>(a, v). size v)"
    by simp
next
  fix T T' :: model_type and kvs :: "(string \<times> pyval) list"
    and p :: "field_info \<times> string \<times> pyval"
  assume mem: "p \<in> set (zip (mt_fields T) kvs)"
  obtain f k v where p: "p = (f, k, v)"
    by (cases p) auto
  from mem have "(k, v) \<in> set kvs"
    unfolding p by (rule set_zip_rightD)
  then have "size_prod (\<lambda>x. 0) size (k, v) \<le> size_list (size_prod (\<lambda>x. 0) size) kvs"
    by (rule size_list_estimation') simp
  then show "((fi_annotation (fst p), snd (snd p)), (AModel T, VModel T' kvs))
      \<in> measure (\<lambda>(a, v). size v)"
    by (simp add: p)
qed

text \<open>The record \<^verbatim>\<open>Data(data=output_dict)\<close> handed to the host.\<close>

record Data =
  data :: "(string \<times> pyval) list"

subsection \<open>The runtime: classes synthesised and calls made to the client\<close>

text \<open>
  The configuration dictionary of lines 93 to 97, and the observability callbacks it
  carries (opaque handles of the host).
\<close>

datatype callback = Callback nat

record config =
  run_name :: string
  project_name :: string
  callbacks :: "callback list"

text \<open>
  The two calls the method makes on the client: \<^verbatim>\<open>with_structured_output(schema, method)\<close>
  and, through \<^verbatim>\<open>get_chat_result\<close>, the invocation with the input text and the
  configuration.
\<close>

datatype event =
    WithStructuredOutput model_type string
  | GetChatResult string config

text \<open>
  The state the method reads and extends: the pydantic classes created so far (a new
  class gets the next identity) and the calls made to the client so far.
\<close>

record runtime =
  classes :: "model_type list"
  calls :: "event list"

text \<open>
  Pydantic's \<^verbatim>\<open>create_model(name, **fields)\<close>: a new class with the given name and
  fields, numbered after the classes that exist and added to them.
\<close>

definition create_model ::
  "string \<Rightarrow> field_info list \<Rightarrow> runtime \<Rightarrow> model_type \<times> runtime" where
  "create_model model_name flds s =
     (let T = ModelType (length (classes s)) model_name flds
      in (T, s\<lparr>classes := classes s @ [T]\<rparr>))"

subsection \<open>The component and its host\<close>

text \<open>
  A row of the \<^verbatim>\<open>output_schema\<close> table (its \<^verbatim>\<open>table_schema\<close>, lines 34 to 61): name,
  description, declared type (a string such as \<^verbatim>\<open>str\<close>) and the multiple flag.
\<close>

record field_spec =
  fs_name :: string
  fs_description :: string
  fs_type :: string
  fs_multiple :: bool

text \<open>
  The language-model client is an object of the host. The method uses one attribute of
  it, \<^verbatim>\<open>with_structured_output\<close>, which the object may lack (\<open>None\<close>). When present it
  takes the target class and the decoding method and returns a runnable or raises; a
  runnable takes the input text and the configuration and returns a value or raises.
\<close>

type_synonym runnable = "string \<Rightarrow> config \<Rightarrow> py_error + pyval"

record language_model =
  with_structured_output :: "(model_type \<Rightarrow> string \<Rightarrow> py_error + runnable) option"

text \<open>
  The inputs of the component (lines 17 to 68) and the context the host supplies:
  the display name of the node, and what the accessors \<^verbatim>\<open>get_project_name()\<close> and
  \<^verbatim>\<open>get_langchain_callbacks()\<close> return.
\<close>

record component =
  llm :: language_model
  input_value :: string
  schema_name :: string
  output_schema :: "field_spec list"
  multiple :: bool
  display_name :: string
  get_project_name :: string
  get_langchain_callbacks :: "callback list"

subsection \<open>The Schema Builder\<close>

text \<open>
  Modelled from the spec: the declared type of a Field Specification, part of
  \<^verbatim>\<open>build_model_from_schema\<close> (module \<^verbatim>\<open>langflow.helpers.base_model\<close>, which is not
  among the source files). The spec (section 3) gives the type as one of a small fixed
  set: string, integer, float, boolean, list, mapping; they are written here as the table
  input documents them (line 52). Any other declared type is unsupported.
\<close>

definition annotation_of_type :: "string \<Rightarrow> annotation option" where
  "annotation_of_type t =
     (if t = ''str'' then Some AStr
      else if t = ''int'' then Some AInt
      else if t = ''float'' then Some AFloat
      else if t = ''bool'' then Some ABool
      else if t = ''list'' then Some AListAny
      else if t = ''dict'' then Some ADictAny
      else None)"

text \<open>
  Modelled from the spec: the type of a member, part of \<^verbatim>\<open>build_model_from_schema\<close>
  (not among the source files). The spec (section 4.1) gives it as the declared primitive
  or, when \<open>multiple\<close> is true, a sequence of that primitive.
\<close>

definition field_annotation :: "field_spec \<Rightarrow> annotation option" where
  "field_annotation f =
     (case annotation_of_type (fs_type f) of
        None \<Rightarrow> None
      | Some a \<Rightarrow> Some (if fs_multiple f then AListOf a else a))"

text \<open>
  Modelled from the spec: the members of the record type, part of
  \<^verbatim>\<open>build_model_from_schema\<close> (not among the source files). The spec (section 4.1)
  gives them as: one member per Field Specification, in order, named per the Field
  Specification and carrying its description; an unsupported declared type fails fast
  with a descriptive error.
\<close>

fun build_fields :: "field_spec list \<Rightarrow> py_error + field_info list" where
  "build_fields [] = Inr []"
| "build_fields (f # fs) =
     (case field_annotation f of
        None \<Rightarrow> Inl (UnsupportedType (fs_type f))
      | Some a \<Rightarrow>
          (case build_fields fs of
             Inl e \<Rightarrow> Inl e
           | Inr rest \<Rightarrow> Inr (FieldInfo (fs_name f) a (fs_description f) # rest)))"

text \<open>
  Modelled from the spec: the name of the synthesised record type, part of
  \<^verbatim>\<open>build_model_from_schema\<close> (not among the source files). The spec gives the type no
  name; this constant stands for it.
\<close>

definition runtime_record_name :: string where
  "runtime_record_name = ''OutputModel''"

text \<open>
  Modelled from the spec: \<^verbatim>\<open>build_model_from_schema\<close> lives in
  \<^verbatim>\<open>langflow.helpers.base_model\<close>, which is not among the source files. The spec
  (section 4.1) gives it as: from an ordered sequence of Field Specifications, a record
  type with the members above, freshly constructed each call, or the failure on an
  unsupported declared type, in which case nothing is constructed.
\<close>

definition build_model_from_schema ::
  "field_spec list \<Rightarrow> runtime \<Rightarrow> (py_error + model_type) \<times> runtime" where
  "build_model_from_schema schema s =
     (case build_fields schema of
        Inl e \<Rightarrow> (Inl e, s)
      | Inr flds \<Rightarrow>
          (case create_model runtime_record_name flds s of
             (T, s') \<Rightarrow> (Inr T, s')))"

subsection \<open>The model invocation\<close>

text \<open>
  Modelled from the spec: \<^verbatim>\<open>get_chat_result\<close> lives in
  \<^verbatim>\<open>langflow.base.models.chat_result\<close>, which is not among the source files. The spec
  (section 4.3) gives it as: invoke the bound client with the given input text and the
  configuration; the result is what the client returns, or the failure it raises.
\<close>

definition get_chat_result :: "runnable \<Rightarrow> string \<Rightarrow> config \<Rightarrow> py_error + pyval" where
  "get_chat_result runnable inp cfg = runnable inp cfg"

subsection \<open>\<^verbatim>\<open>build_structured_output\<close>\<close>

text \<open>The configuration of lines 93 to 97.\<close>

definition config_dict :: "component \<Rightarrow> config" where
  "config_dict self =
     \<lparr>run_name = display_name self,
      project_name = get_project_name self,
      callbacks = get_langchain_callbacks self\<rparr>"

text \<open>
  The envelope of lines 84 to 87: field \<^verbatim>\<open>objects\<close> of type \<^verbatim>\<open>list[_output_model]\<close> with
  the description \<^verbatim>\<open>f"A list of {self.schema_name}."\<close>.
\<close>

definition objects_field :: "string \<Rightarrow> model_type \<Rightarrow> field_info" where
  "objects_field name inner_model =
     FieldInfo ''objects'' (AListOf (AModel inner_model)) (''A list of '' @ name @ ''.'')"

text \<open>
  Lines 83 to 89: with the \<^verbatim>\<open>multiple\<close> flag the target class is a new class named
  \<^verbatim>\<open>self.schema_name\<close> with the single field \<^verbatim>\<open>objects\<close>; without it the target is
  the class the Schema Builder returned. \<open>inner_model\<close> is the source's
  \<^verbatim>\<open>_output_model\<close>.
\<close>

definition output_model_of ::
  "component \<Rightarrow> model_type \<Rightarrow> runtime \<Rightarrow> model_type \<times> runtime" where
  "output_model_of self inner_model s =
     (if multiple self
      then create_model (schema_name self) [objects_field (schema_name self) inner_model] s
      else (inner_model, s))"

text \<open>Recording a call made to the client.\<close>

definition record_call :: "event \<Rightarrow> runtime \<Rightarrow> runtime" where
  "record_call e s = s\<lparr>calls := calls s @ [e]\<rparr>"

text \<open>
  Lines 74 to 104. The result is the exception raised or the \<^verbatim>\<open>Data\<close> returned, with
  the runtime as the method leaves it.
\<close>

definition build_structured_output ::
  "component \<Rightarrow> runtime \<Rightarrow> (py_error + Data) \<times> runtime" where
  "build_structured_output self s =
     (case with_structured_output (llm self) of
        None \<Rightarrow> (Inl (TypeError ''Language model does not support structured output.''), s)
      | Some bind \<Rightarrow>
          if output_schema self = []
          then (Inl (ValueError ''Output schema cannot be empty''), s)
          else
            (case build_model_from_schema (output_schema self) s of
               (Inl e, s1) \<Rightarrow> (Inl e, s1)
             | (Inr inner_model, s1) \<Rightarrow>
                 (case output_model_of self inner_model s1 of
                    (output_model, s2) \<Rightarrow>
                      (let s3 = record_call (WithStructuredOutput output_model ''json_schema'') s2
                       in case bind output_model ''json_schema'' of
                            Inl e \<Rightarrow> (Inl e, s3)
                          | Inr llm_with_structured_output \<Rightarrow>
                              (let s4 = record_call
                                          (GetChatResult (input_value self) (config_dict self)) s3
                               in case get_chat_result llm_with_structured_output
                                         (input_value self) (config_dict self) of
                                    Inl e \<Rightarrow> (Inl e, s4)
                                  | Inr output \<Rightarrow>
                                      if isinstance_BaseModel output
                                      then (case model_dump output of
                                              Inl e \<Rightarrow> (Inl e, s4)
                                            | Inr output_dict \<Rightarrow> (Inr \<lparr>data = output_dict\<rparr>, s4))
                                      else (Inl (ValueError ''Output is not a BaseModel.''), s4))))))"

subsection \<open>Reading a run\<close>

text \<open>The classes a run bound to the client, in order.\<close>

fun bound_types :: "event list \<Rightarrow> model_type list" where
  "bound_types [] = []"
| "bound_types (WithStructuredOutput T m # es) = T # bound_types es"
| "bound_types (GetChatResult i c # es) = bound_types es"

text \<open>A dictionary whose keys are exactly the given names.\<close>

fun keyed_by :: "string list \<Rightarrow> pyval \<Rightarrow> bool" where
  "keyed_by names (VDict kvs) = (set (map fst kvs) = set names)"
| "keyed_by names v = False"

text \<open>
  Two classes are structurally equivalent when they have the same name and the same
  fields (names, annotations and descriptions, in order); they may still be two classes.
\<close>

definition struct_equiv :: "model_type \<Rightarrow> model_type \<Rightarrow> bool" where
  "struct_equiv T1 T2 = (mt_name T1 = mt_name T2 \<and> mt_fields T1 = mt_fields T2)"

subsection \<open>Scenarios\<close>

text \<open>
  The schema of the spec's scenarios (fields \<^verbatim>\<open>title: str\<close> and \<^verbatim>\<open>year: int\<close>), the
  classes built from it in a fresh runtime, the two books, and stub clients: one that
  answers every invocation with a fixed value, one without the structured-output
  attribute.
\<close>

definition book_schema :: "field_spec list" where
  "book_schema =
     [\<lparr>fs_name = ''title'', fs_description = ''The title'', fs_type = ''str'',
       fs_multiple = False\<rparr>,
      \<lparr>fs_name = ''year'', fs_description = ''The year'', fs_type = ''int'',
       fs_multiple = False\<rparr>]"

definition book_model :: model_type where
  "book_model =
     ModelType 0 ''OutputModel''
       [FieldInfo ''title'' AStr ''The title'', FieldInfo ''year'' AInt ''The year'']"

definition books_model :: "string \<Rightarrow> model_type" where
  "books_model name =
     ModelType 1 name
       [FieldInfo ''objects'' (AListOf (AModel book_model)) (''A list of '' @ name @ ''.'')]"

definition dune :: pyval where
  "dune = VModel book_model [(''title'', VStr ''Dune''), (''year'', VInt 1965)]"

definition foundation :: pyval where
  "foundation = VModel book_model [(''title'', VStr ''Foundation''), (''year'', VInt 1951)]"

definition books :: "string \<Rightarrow> pyval" where
  "books name = VModel (books_model name) [(''objects'', VList [dune, foundation])]"

definition answering :: "pyval \<Rightarrow> language_model" where
  "answering v = \<lparr>with_structured_output = Some (\<lambda>T m. Inr (\<lambda>inp cfg. Inr v))\<rparr>"

text \<open>The configuration the host of \<open>node\<close> supplies.\<close>

definition host_config :: config where
  "host_config =
     \<lparr>run_name = ''Structured Output'', project_name = ''Library'',
      callbacks = [Callback 7]\<rparr>"

text \<open>
  A client that answers \<open>v\<close> only when it is bound to the class \<open>T\<close> with the method
  \<^verbatim>\<open>json_schema\<close> and then invoked with the input text and the configuration of \<open>node\<close>;
  bound or invoked in any other way, it raises.
\<close>

definition picky :: "model_type \<Rightarrow> pyval \<Rightarrow> language_model" where
  "picky T v =
     \<lparr>with_structured_output = Some (\<lambda>T' m.
        if T' = T \<and> m = ''json_schema''
        then Inr (\<lambda>inp cfg.
               if inp = ''Two classics of science fiction'' \<and> cfg = host_config
               then Inr v
               else Inl (OtherError ''KeyError'' ''unexpected invocation''))
        else Inl (OtherError ''NotImplementedError'' ''unexpected schema''))\<rparr>"

definition no_capability :: language_model where
  "no_capability = \<lparr>with_structured_output = None\<rparr>"

definition node :: "language_model \<Rightarrow> string \<Rightarrow> field_spec list \<Rightarrow> bool \<Rightarrow> component" where
  "node m name schema many =
     \<lparr>llm = m, input_value = ''Two classics of science fiction'', schema_name = name,
      output_schema = schema, multiple = many, display_name = ''Structured Output'',
      get_project_name = ''Library'', get_langchain_callbacks = [Callback 7]\<rparr>"

definition fresh :: runtime where
  "fresh = \<lparr>classes = [], calls = []\<rparr>"

section \<open>Properties\<close>

subsection \<open>Auxiliary facts\<close>

lemma bound_types_append: "bound_types (es @ fs) = bound_types es @ bound_types fs"
  by (induction es rule: bound_types.induct) simp_all

lemma build_fields_names:
  "build_fields schema = Inr flds \<Longrightarrow> map fi_name flds = map fs_name schema"
proof (induction schema arbitrary: flds)
  case Nil
  then show ?case by simp
next
  case (Cons f fs)
  then show ?case by (auto split: option.splits sum.splits)
qed

lemma build_model_from_schema_Inr:
  assumes "build_model_from_schema schema s = (Inr T, s1)"
  shows "map fi_name (mt_fields T) = map fs_name schema"
    and "mt_id T = length (classes s)"
    and "mt_name T = runtime_record_name"
    and "classes s1 = classes s @ [T]"
    and "calls s1 = calls s"
  using assms
  by (auto simp: build_model_from_schema_def create_model_def Let_def build_fields_names
      split: sum.splits)

lemma output_model_of_calls:
  "output_model_of self inner s1 = (output_model, s2) \<Longrightarrow> calls s2 = calls s1"
  by (auto simp: output_model_of_def create_model_def Let_def split: if_splits)

text \<open>The scenarios, evaluated.\<close>

lemma node_sel:
  "llm (node m name schema many) = m"
  "input_value (node m name schema many) = ''Two classics of science fiction''"
  "schema_name (node m name schema many) = name"
  "output_schema (node m name schema many) = schema"
  "multiple (node m name schema many) = many"
  "display_name (node m name schema many) = ''Structured Output''"
  "get_project_name (node m name schema many) = ''Library''"
  "get_langchain_callbacks (node m name schema many) = [Callback 7]"
  by (simp_all add: node_def)

lemma answering_sel:
  "with_structured_output (answering v) = Some (\<lambda>T m. Inr (\<lambda>inp cfg. Inr v))"
  by (simp add: answering_def)

lemma picky_sel:
  "with_structured_output (picky T v) = Some (\<lambda>T' m.
     if T' = T \<and> m = ''json_schema''
     then Inr (\<lambda>inp cfg.
            if inp = ''Two classics of science fiction'' \<and> cfg = host_config
            then Inr v
            else Inl (OtherError ''KeyError'' ''unexpected invocation''))
     else Inl (OtherError ''NotImplementedError'' ''unexpected schema''))"
  by (simp add: picky_def)

lemma book_schema_nonempty: "book_schema \<noteq> []"
  by (simp add: book_schema_def)

lemma book_schema_built:
  "build_model_from_schema book_schema fresh =
     (Inr book_model, \<lparr>classes = [book_model], calls = []\<rparr>)"
  by (simp add: book_schema_def build_model_from_schema_def field_annotation_def
      annotation_of_type_def create_model_def runtime_record_name_def book_model_def
      fresh_def Let_def)

lemma books_wrapped:
  "output_model_of (node m name book_schema True) book_model
      \<lparr>classes = [book_model], calls = []\<rparr> =
     (books_model name, \<lparr>classes = [book_model, books_model name], calls = []\<rparr>)"
  by (simp add: output_model_of_def node_sel create_model_def objects_field_def
      books_model_def Let_def)

lemma book_not_wrapped:
  "output_model_of (node m name book_schema False) book_model s = (book_model, s)"
  by (simp add: output_model_of_def node_sel)

lemma book_run:
  "build_structured_output (node (answering dune) name book_schema False) fresh =
     (Inr \<lparr>data = [(''title'', VStr ''Dune''), (''year'', VInt 1965)]\<rparr>,
      \<lparr>classes = [book_model],
       calls = [WithStructuredOutput book_model ''json_schema'',
                GetChatResult ''Two classics of science fiction''
                  \<lparr>run_name = ''Structured Output'', project_name = ''Library'',
                   callbacks = [Callback 7]\<rparr>]\<rparr>)"
  by (simp add: build_structured_output_def node_sel answering_sel book_schema_nonempty
      book_schema_built book_not_wrapped record_call_def get_chat_result_def config_dict_def
      dune_def Let_def)

lemma books_run:
  "build_structured_output (node (answering (books name)) name book_schema True) fresh =
     (Inr \<lparr>data = [(''objects'',
              VList [VDict [(''title'', VStr ''Dune''), (''year'', VInt 1965)],
                     VDict [(''title'', VStr ''Foundation''), (''year'', VInt 1951)]])]\<rparr>,
      \<lparr>classes = [book_model, books_model name],
       calls = [WithStructuredOutput (books_model name) ''json_schema'',
                GetChatResult ''Two classics of science fiction''
                  \<lparr>run_name = ''Structured Output'', project_name = ''Library'',
                   callbacks = [Callback 7]\<rparr>]\<rparr>)"
  by (simp add: build_structured_output_def node_sel answering_sel book_schema_nonempty
      book_schema_built books_wrapped record_call_def get_chat_result_def config_dict_def
      books_def dune_def foundation_def Let_def)

lemma picky_books_run:
  "build_structured_output
     (node (picky (books_model ''Book'') (books ''Book'')) ''Book'' book_schema True) fresh =
     (Inr \<lparr>data = [(''objects'',
              VList [VDict [(''title'', VStr ''Dune''), (''year'', VInt 1965)],
                     VDict [(''title'', VStr ''Foundation''), (''year'', VInt 1951)]])]\<rparr>,
      \<lparr>classes = [book_model, books_model ''Book''],
       calls = [WithStructuredOutput (books_model ''Book'') ''json_schema'',
                GetChatResult ''Two classics of science fiction''
                  \<lparr>run_name = ''Structured Output'', project_name = ''Library'',
                   callbacks = [Callback 7]\<rparr>]\<rparr>)"
  by (simp add: build_structured_output_def node_sel picky_sel book_schema_nonempty
      book_schema_built books_wrapped record_call_def get_chat_result_def config_dict_def
      host_config_def books_def dune_def foundation_def Let_def)

text \<open>What a validated value looks like.\<close>

lemma validated_AModelD:
  assumes "validated (AModel T) v"
  obtains kvs where "v = VModel T kvs" and "map fst kvs = map fi_name (mt_fields T)"
    and "list_all (\<lambda>p. validated (fi_annotation (fst p)) (snd (snd p))) (zip (mt_fields T) kvs)"
  using assms by (cases v) auto

lemma validated_AListOfD:
  assumes "validated (AListOf a) v"
  obtains vs where "v = VList vs" and "list_all (validated a) vs"
  using assms by (cases v) auto

lemma dump_value_keyed_by:
  assumes "validated (AModel T) v"
  shows "keyed_by (map fi_name (mt_fields T)) (dump_value v)"
proof -
  from assms obtain kvs where "v = VModel T kvs" and "map fst kvs = map fi_name (mt_fields T)"
    by (rule validated_AModelD)
  then show ?thesis
    by (simp add: comp_def)
qed

lemma dune_validated: "validated (AModel book_model) dune"
  by (simp add: dune_def book_model_def)

lemma books_validated: "validated (AModel (books_model name)) (books name)"
  by (simp add: books_def books_model_def dune_def foundation_def book_model_def)

lemma book_schema_built_again:
  "build_model_from_schema book_schema \<lparr>classes = [book_model], calls = []\<rparr> =
     (Inr (ModelType 1 ''OutputModel'' (mt_fields book_model)),
      \<lparr>classes = [book_model, ModelType 1 ''OutputModel'' (mt_fields book_model)],
       calls = []\<rparr>)"
  by (simp add: book_schema_def build_model_from_schema_def field_annotation_def
      annotation_of_type_def create_model_def runtime_record_name_def book_model_def Let_def)

text \<open>A run that reaches the client, up to the binding.\<close>

lemma build_structured_output_bound:
  assumes "with_structured_output (llm self) = Some bind"
    and "output_schema self \<noteq> []"
    and "build_model_from_schema (output_schema self) s = (Inr inner, s1)"
    and "output_model_of self inner s1 = (output_model, s2)"
  shows "build_structured_output self s =
     (let s3 = record_call (WithStructuredOutput output_model ''json_schema'') s2
      in case bind output_model ''json_schema'' of
           Inl e \<Rightarrow> (Inl e, s3)
         | Inr r \<Rightarrow>
             (let s4 = record_call (GetChatResult (input_value self) (config_dict self)) s3
              in case get_chat_result r (input_value self) (config_dict self) of
                   Inl e \<Rightarrow> (Inl e, s4)
                 | Inr output \<Rightarrow>
                     if isinstance_BaseModel output
                     then (case model_dump output of
                             Inl e \<Rightarrow> (Inl e, s4)
                           | Inr output_dict \<Rightarrow> (Inr \<lparr>data = output_dict\<rparr>, s4))
                     else (Inl (ValueError ''Output is not a BaseModel.''), s4)))"
  using assms by (simp add: build_structured_output_def)

text \<open>A run that reaches the invocation and gets a value back.\<close>

lemma build_structured_output_returned:
  assumes "with_structured_output (llm self) = Some bind"
    and "output_schema self \<noteq> []"
    and "build_model_from_schema (output_schema self) s = (Inr inner, s1)"
    and "output_model_of self inner s1 = (output_model, s2)"
    and "bind output_model ''json_schema'' = Inr r"
    and "get_chat_result r (input_value self) (config_dict self) = Inr output"
  shows "fst (build_structured_output self s) =
     (case output of
        VModel T kvs \<Rightarrow> Inr \<lparr>data = map (\<lambda>kv. (fst kv, dump_value (snd kv))) kvs\<rparr>
      | _ \<Rightarrow> Inl (ValueError ''Output is not a BaseModel.''))"
  using assms
  by (cases "output") (simp_all add: build_structured_output_bound Let_def)

subsection \<open>Errors raised before the client is reached\<close>

text \<open>
  C3. When the language-model client has no \<^verbatim>\<open>with_structured_output\<close> attribute, the
  method raises the capability error and leaves the runtime as it found it: no class has
  been synthesised, the client has not been called, and no output is produced.
\<close>

theorem capability_error_before_any_call:
  assumes "with_structured_output (llm self) = None"
  shows "build_structured_output self s =
    (Inl (TypeError ''Language model does not support structured output.''), s)"
  using assms by (simp add: build_structured_output_def)

theorem capability_error_before_any_call_witness:
  "with_structured_output (llm (node no_capability ''Book'' book_schema False)) = None \<and>
   build_structured_output (node no_capability ''Book'' book_schema False) fresh =
     (Inl (TypeError ''Language model does not support structured output.''), fresh)"
proof -
  have h: "with_structured_output (llm (node no_capability ''Book'' book_schema False)) = None"
    by (simp add: node_def no_capability_def)
  from h capability_error_before_any_call [OF h, of fresh] show ?thesis
    by simp
qed

text \<open>
  C4, as the code has it. When the Output Schema is empty the method fails before any
  schema synthesis: the runtime is as it was found, so no class has been built and the
  client has not been called. The error is the validation error when the client has the
  structured-output attribute, and the capability error when it has not.
\<close>

theorem empty_schema_fails_before_synthesis:
  assumes "output_schema self = []"
  shows "build_structured_output self s =
    (if with_structured_output (llm self) = None
     then Inl (TypeError ''Language model does not support structured output.'')
     else Inl (ValueError ''Output schema cannot be empty''), s)"
  using assms by (simp add: build_structured_output_def split: option.splits)

theorem empty_schema_fails_before_synthesis_witness:
  "output_schema (node (answering dune) ''Book'' [] False) = [] \<and>
   build_structured_output (node (answering dune) ''Book'' [] False) fresh =
     (Inl (ValueError ''Output schema cannot be empty''), fresh)"
proof -
  have h: "output_schema (node (answering dune) ''Book'' [] False) = []"
    by (simp add: node_def)
  from h empty_schema_fails_before_synthesis [OF h, of fresh] show ?thesis
    by (simp add: node_def answering_def)
qed

text \<open>
  C4 as stated fails where the client also lacks the attribute: the schema is empty and
  the error is the capability error, not the validation error.
\<close>

theorem empty_schema_validation_error_counterexample:
  "output_schema (node no_capability ''Book'' [] False) = [] \<and>
   fst (build_structured_output (node no_capability ''Book'' [] False) fresh) =
     Inl (TypeError ''Language model does not support structured output.'')"
  by (simp add: build_structured_output_def node_def no_capability_def)

text \<open>
  C10. The capability check comes first. Without the attribute and with an empty schema
  the error is the \<^verbatim>\<open>TypeError\<close>; with the attribute and an empty schema it is the
  \<^verbatim>\<open>ValueError\<close> of the schema check; and whenever the method ends in that
  \<^verbatim>\<open>ValueError\<close> the client has the attribute.
\<close>

theorem capability_check_precedes_schema_check:
  "(with_structured_output (llm self) = None \<and> output_schema self = [] \<longrightarrow>
      fst (build_structured_output self s) =
        Inl (TypeError ''Language model does not support structured output.'')) \<and>
   (with_structured_output (llm self) \<noteq> None \<and> output_schema self = [] \<longrightarrow>
      fst (build_structured_output self s) = Inl (ValueError ''Output schema cannot be empty'')) \<and>
   (fst (build_structured_output self s) = Inl (ValueError ''Output schema cannot be empty'') \<longrightarrow>
      with_structured_output (llm self) \<noteq> None)"
  by (cases "with_structured_output (llm self)") (simp_all add: build_structured_output_def)

theorem capability_check_precedes_schema_check_witness:
  "fst (build_structured_output (node no_capability ''Book'' [] True) fresh) =
     Inl (TypeError ''Language model does not support structured output.'') \<and>
   fst (build_structured_output (node (answering dune) ''Book'' [] True) fresh) =
     Inl (ValueError ''Output schema cannot be empty'') \<and>
   with_structured_output (llm (node (answering dune) ''Book'' [] True)) \<noteq> None"
  using capability_check_precedes_schema_check [of "node no_capability ''Book'' [] True" fresh]
    capability_check_precedes_schema_check [of "node (answering dune) ''Book'' [] True" fresh]
  by (simp add: node_def no_capability_def answering_def)

subsection \<open>The target type and the invocation\<close>

text \<open>
  C5. In a run that gets past the two checks and the Schema Builder, the client is bound
  exactly once, to the target class and with the method \<^verbatim>\<open>json_schema\<close>: what the
  method returns is what the client makes of that very binding (its failure, or the
  outcome of invoking the runnable it returns). With the \<^verbatim>\<open>multiple\<close> flag the target
  is a new class named after \<^verbatim>\<open>schema_name\<close> whose single field \<^verbatim>\<open>objects\<close> is a list of
  the Schema Builder's class and carries the description "A list of {schema_name}.";
  without the flag it is the Schema Builder's class itself.
\<close>

theorem target_type_bound_to_client:
  assumes "with_structured_output (llm self) = Some bind"
    and "output_schema self \<noteq> []"
    and "build_model_from_schema (output_schema self) s = (Inr inner, s1)"
  shows
    "(let target =
        (if multiple self
         then ModelType (length (classes s1)) (schema_name self)
                [FieldInfo ''objects'' (AListOf (AModel inner))
                   (''A list of '' @ schema_name self @ ''.'')]
         else inner)
      in bound_types (calls (snd (build_structured_output self s))) =
           bound_types (calls s) @ [target] \<and>
         fst (build_structured_output self s) =
           (case bind target ''json_schema'' of
              Inl e \<Rightarrow> Inl e
            | Inr r \<Rightarrow>
                (case get_chat_result r (input_value self) (config_dict self) of
                   Inl e \<Rightarrow> Inl e
                 | Inr v \<Rightarrow>
                     (case v of
                        VModel T kvs \<Rightarrow>
                          Inr \<lparr>data = map (\<lambda>kv. (fst kv, dump_value (snd kv))) kvs\<rparr>
                      | _ \<Rightarrow> Inl (ValueError ''Output is not a BaseModel.'')))))"
proof -
  obtain output_model s2 where wrap: "output_model_of self inner s1 = (output_model, s2)"
    by (cases "output_model_of self inner s1")
  have target: "(if multiple self
       then ModelType (length (classes s1)) (schema_name self)
              [FieldInfo ''objects'' (AListOf (AModel inner))
                 (''A list of '' @ schema_name self @ ''.'')]
       else inner) = output_model"
    using wrap
    by (auto simp: output_model_of_def create_model_def objects_field_def Let_def
        split: if_splits)
  have "calls s2 = calls s"
    using output_model_of_calls [OF wrap] build_model_from_schema_Inr(5) [OF assms(3)]
    by simp
  then have logged: "bound_types (calls (snd (build_structured_output self s))) =
      bound_types (calls s) @ [output_model]"
    by (simp add: build_structured_output_bound [OF assms wrap] Let_def record_call_def
        bound_types_append split: sum.splits)
  have outcome: "fst (build_structured_output self s) =
      (case bind output_model ''json_schema'' of
         Inl e \<Rightarrow> Inl e
       | Inr r \<Rightarrow>
           (case get_chat_result r (input_value self) (config_dict self) of
              Inl e \<Rightarrow> Inl e
            | Inr v \<Rightarrow>
                (case v of
                   VModel T kvs \<Rightarrow>
                     Inr \<lparr>data = map (\<lambda>kv. (fst kv, dump_value (snd kv))) kvs\<rparr>
                 | _ \<Rightarrow> Inl (ValueError ''Output is not a BaseModel.''))))"
    by (simp add: build_structured_output_bound [OF assms wrap] Let_def
        split: sum.splits pyval.splits)
  from logged outcome show ?thesis
    unfolding Let_def target by (rule conjI)
qed

theorem target_type_bound_to_client_witness:
  "bound_types (calls (snd (build_structured_output
      (node (picky (books_model ''Book'') (books ''Book'')) ''Book'' book_schema True) fresh))) =
     [ModelType 1 ''Book''
        [FieldInfo ''objects'' (AListOf (AModel book_model)) ''A list of Book.'']] \<and>
   fst (build_structured_output
      (node (picky (books_model ''Book'') (books ''Book'')) ''Book'' book_schema True) fresh) =
     Inr \<lparr>data = [(''objects'',
             VList [VDict [(''title'', VStr ''Dune''), (''year'', VInt 1965)],
                    VDict [(''title'', VStr ''Foundation''), (''year'', VInt 1951)]])]\<rparr> \<and>
   bound_types (calls (snd (build_structured_output
      (node (picky book_model dune) ''Book'' book_schema False) fresh))) = [book_model] \<and>
   fst (build_structured_output
      (node (picky book_model dune) ''Book'' book_schema False) fresh) =
     Inr \<lparr>data = [(''title'', VStr ''Dune''), (''year'', VInt 1965)]\<rparr> \<and>
   fst (build_structured_output
      (node (picky book_model dune) ''Book'' book_schema True) fresh) =
     Inl (OtherError ''NotImplementedError'' ''unexpected schema'')"
proof -
  have cap: "with_structured_output (llm (node (picky T v) ''Book'' book_schema many)) =
      with_structured_output (picky T v)" for T v many
    by (simp add: node_sel)
  have ne: "output_schema (node m ''Book'' book_schema many) \<noteq> []" for m many
    by (simp add: node_sel book_schema_nonempty)
  have built: "build_model_from_schema
      (output_schema (node m ''Book'' book_schema many)) fresh =
      (Inr book_model, \<lparr>classes = [book_model], calls = []\<rparr>)" for m many
    by (simp add: node_sel book_schema_built)
  show ?thesis
    using
      target_type_bound_to_client
        [OF cap [unfolded picky_sel] ne built, of "books_model ''Book''" "books ''Book''" True]
      target_type_bound_to_client
        [OF cap [unfolded picky_sel] ne built, of book_model dune False]
      target_type_bound_to_client
        [OF cap [unfolded picky_sel] ne built, of book_model dune True]
    by (simp add: Let_def node_sel fresh_def get_chat_result_def config_dict_def
        host_config_def books_model_def books_def dune_def foundation_def book_model_def)
qed

text \<open>
  C6. When the invocation returns a value, the method looks only at whether it is an
  instance of a pydantic class. If it is, the result is the instance's fields as a
  mapping from field name to dumped value; if it is anything else, a dictionary with the
  right keys included, the method raises the \<^verbatim>\<open>ValueError\<close> and returns nothing.
\<close>

theorem non_record_output_rejected:
  assumes "with_structured_output (llm self) = Some bind"
    and "output_schema self \<noteq> []"
    and "build_model_from_schema (output_schema self) s = (Inr inner, s1)"
    and "output_model_of self inner s1 = (output_model, s2)"
    and "bind output_model ''json_schema'' = Inr r"
    and "get_chat_result r (input_value self) (config_dict self) = Inr v"
  shows "fst (build_structured_output self s) =
     (case v of
        VModel T kvs \<Rightarrow> Inr \<lparr>data = map (\<lambda>kv. (fst kv, dump_value (snd kv))) kvs\<rparr>
      | _ \<Rightarrow> Inl (ValueError ''Output is not a BaseModel.''))"
  using assms by (rule build_structured_output_returned)

theorem non_record_output_rejected_witness:
  "fst (build_structured_output
      (node (answering (VDict [(''title'', VStr ''Dune''), (''year'', VInt 1965)]))
         ''Book'' book_schema False) fresh) =
     Inl (ValueError ''Output is not a BaseModel.'') \<and>
   fst (build_structured_output (node (answering dune) ''Book'' book_schema False) fresh) =
     Inr \<lparr>data = [(''title'', VStr ''Dune''), (''year'', VInt 1965)]\<rparr>"
  using
    non_record_output_rejected
      [where self = "node (answering (VDict [(''title'', VStr ''Dune''), (''year'', VInt 1965)]))
          ''Book'' book_schema False"
        and s = fresh and inner = book_model and output_model = book_model
        and ?s1.0 = "\<lparr>classes = [book_model], calls = []\<rparr>"
        and ?s2.0 = "\<lparr>classes = [book_model], calls = []\<rparr>"
        and bind = "\<lambda>T m. Inr (\<lambda>inp cfg.
          Inr (VDict [(''title'', VStr ''Dune''), (''year'', VInt 1965)]))"
        and r = "\<lambda>inp cfg. Inr (VDict [(''title'', VStr ''Dune''), (''year'', VInt 1965)])"
        and v = "VDict [(''title'', VStr ''Dune''), (''year'', VInt 1965)]"]
    non_record_output_rejected
      [where self = "node (answering dune) ''Book'' book_schema False"
        and s = fresh and inner = book_model and output_model = book_model
        and ?s1.0 = "\<lparr>classes = [book_model], calls = []\<rparr>"
        and ?s2.0 = "\<lparr>classes = [book_model], calls = []\<rparr>"
        and bind = "\<lambda>T m. Inr (\<lambda>inp cfg. Inr dune)"
        and r = "\<lambda>inp cfg. Inr dune" and v = dune]
  by (simp add: node_sel answering_sel book_schema_built book_not_wrapped get_chat_result_def
      book_schema_nonempty dune_def)

text \<open>
  C7. Every run that returns an output went through the client in this way: the client's
  \<^verbatim>\<open>with_structured_output\<close> was applied to the target class (the one of C5) and the
  method \<^verbatim>\<open>json_schema\<close> and returned a runnable; that runnable was invoked with the
  input text and a configuration holding the node's display name as run name, the project
  name of the accessor and the callbacks of the accessor, unchanged, and returned the
  instance whose dump is the output. These are the only two calls made to the client.
\<close>

theorem invocation_forwards_host_context:
  assumes "build_structured_output self s = (Inr d, s')"
  shows "\<exists>bind inner s1 r T kvs.
    (let target =
       (if multiple self
        then ModelType (length (classes s1)) (schema_name self)
               [FieldInfo ''objects'' (AListOf (AModel inner))
                  (''A list of '' @ schema_name self @ ''.'')]
        else inner);
         cfg = \<lparr>run_name = display_name self, project_name = get_project_name self,
                callbacks = get_langchain_callbacks self\<rparr>
     in with_structured_output (llm self) = Some bind \<and>
        build_model_from_schema (output_schema self) s = (Inr inner, s1) \<and>
        bind target ''json_schema'' = Inr r \<and>
        get_chat_result r (input_value self) cfg = Inr (VModel T kvs) \<and>
        d = \<lparr>data = map (\<lambda>kv. (fst kv, dump_value (snd kv))) kvs\<rparr> \<and>
        calls s' = calls s @
          [WithStructuredOutput target ''json_schema'', GetChatResult (input_value self) cfg])"
proof -
  from assms obtain bind where cap: "with_structured_output (llm self) = Some bind"
    by (cases "with_structured_output (llm self)") (simp_all add: build_structured_output_def)
  from assms cap have ne: "output_schema self \<noteq> []"
    by (auto simp: build_structured_output_def)
  from assms cap ne obtain inner s1
    where built: "build_model_from_schema (output_schema self) s = (Inr inner, s1)"
    by (auto simp: build_structured_output_def split: prod.splits sum.splits)
  obtain output_model s2 where wrap: "output_model_of self inner s1 = (output_model, s2)"
    by (cases "output_model_of self inner s1")
  have target: "(if multiple self
       then ModelType (length (classes s1)) (schema_name self)
              [FieldInfo ''objects'' (AListOf (AModel inner))
                 (''A list of '' @ schema_name self @ ''.'')]
       else inner) = output_model"
    using wrap
    by (auto simp: output_model_of_def create_model_def objects_field_def Let_def
        split: if_splits)
  have same: "calls s2 = calls s"
    using output_model_of_calls [OF wrap] build_model_from_schema_Inr(5) [OF built]
    by simp
  note run = assms [unfolded build_structured_output_bound [OF cap ne built wrap] Let_def]
  from run obtain r where bound: "bind output_model ''json_schema'' = Inr r"
    by (cases "bind output_model ''json_schema''") simp_all
  from run bound obtain v
    where returned: "get_chat_result r (input_value self) (config_dict self) = Inr v"
    by (cases "get_chat_result r (input_value self) (config_dict self)") simp_all
  from run bound returned obtain T kvs where v: "v = VModel T kvs"
    by (cases v) (simp_all split: if_splits)
  from run bound returned v
  have d: "d = \<lparr>data = map (\<lambda>kv. (fst kv, dump_value (snd kv))) kvs\<rparr>"
    by simp
  from run bound returned v same
  have logged: "calls s' = calls s @
      [WithStructuredOutput output_model ''json_schema'',
       GetChatResult (input_value self) (config_dict self)]"
    by (auto simp: record_call_def)
  let ?target = "if multiple self
       then ModelType (length (classes s1)) (schema_name self)
              [FieldInfo ''objects'' (AListOf (AModel inner))
                 (''A list of '' @ schema_name self @ ''.'')]
       else inner"
  let ?cfg = "\<lparr>run_name = display_name self, project_name = get_project_name self,
      callbacks = get_langchain_callbacks self\<rparr>"
  have main: "with_structured_output (llm self) = Some bind \<and>
      build_model_from_schema (output_schema self) s = (Inr inner, s1) \<and>
      bind ?target ''json_schema'' = Inr r \<and>
      get_chat_result r (input_value self) ?cfg = Inr (VModel T kvs) \<and>
      d = \<lparr>data = map (\<lambda>kv. (fst kv, dump_value (snd kv))) kvs\<rparr> \<and>
      calls s' = calls s @
        [WithStructuredOutput ?target ''json_schema'', GetChatResult (input_value self) ?cfg]"
    unfolding target config_dict_def [symmetric]
    using cap built bound returned v d logged by simp
  show ?thesis
    unfolding Let_def by (intro exI) (rule main)
qed

theorem invocation_forwards_host_context_witness:
  "build_structured_output
     (node (picky (books_model ''Book'') (books ''Book'')) ''Book'' book_schema True) fresh =
     (Inr \<lparr>data = [(''objects'',
              VList [VDict [(''title'', VStr ''Dune''), (''year'', VInt 1965)],
                     VDict [(''title'', VStr ''Foundation''), (''year'', VInt 1951)]])]\<rparr>,
      \<lparr>classes = [book_model, books_model ''Book''],
       calls = [WithStructuredOutput (books_model ''Book'') ''json_schema'',
                GetChatResult ''Two classics of science fiction''
                  \<lparr>run_name = ''Structured Output'', project_name = ''Library'',
                   callbacks = [Callback 7]\<rparr>]\<rparr>) \<and>
   (\<exists>bind r T kvs.
      with_structured_output (picky (books_model ''Book'') (books ''Book'')) = Some bind \<and>
      bind (books_model ''Book'') ''json_schema'' = Inr r \<and>
      get_chat_result r ''Two classics of science fiction''
        \<lparr>run_name = ''Structured Output'', project_name = ''Library'',
         callbacks = [Callback 7]\<rparr> = Inr (VModel T kvs) \<and>
      [(''objects'',
        VList [VDict [(''title'', VStr ''Dune''), (''year'', VInt 1965)],
               VDict [(''title'', VStr ''Foundation''), (''year'', VInt 1951)]])] =
        map (\<lambda>kv. (fst kv, dump_value (snd kv))) kvs)"
proof -
  have "\<exists>bind r T kvs.
      with_structured_output (picky (books_model ''Book'') (books ''Book'')) = Some bind \<and>
      bind (books_model ''Book'') ''json_schema'' = Inr r \<and>
      get_chat_result r ''Two classics of science fiction''
        \<lparr>run_name = ''Structured Output'', project_name = ''Library'',
         callbacks = [Callback 7]\<rparr> = Inr (VModel T kvs) \<and>
      [(''objects'',
        VList [VDict [(''title'', VStr ''Dune''), (''year'', VInt 1965)],
               VDict [(''title'', VStr ''Foundation''), (''year'', VInt 1951)]])] =
        map (\<lambda>kv. (fst kv, dump_value (snd kv))) kvs"
    using invocation_forwards_host_context [OF picky_books_run]
    by (simp add: Let_def node_sel book_schema_built books_model_def) (auto simp: fresh_def)
  with picky_books_run show ?thesis
    by (rule conjI)
qed

subsection \<open>The schema name\<close>

text \<open>
  C9, as the code has it. The schema name is not checked. Without the \<^verbatim>\<open>multiple\<close> flag
  it is not used at all: the method does the same with every schema name, the empty one
  included.
\<close>

theorem schema_name_unused_without_multiple:
  assumes "\<not> multiple self"
  shows "build_structured_output (self\<lparr>schema_name := name\<rparr>) s = build_structured_output self s"
proof -
  have "config_dict (self\<lparr>schema_name := name\<rparr>) = config_dict self"
    by (simp add: config_dict_def)
  moreover have "output_model_of (self\<lparr>schema_name := name\<rparr>) inner s1 =
      output_model_of self inner s1" for inner s1
    using assms by (simp add: output_model_of_def)
  ultimately show ?thesis
    by (simp add: build_structured_output_def
        cong: option.case_cong if_cong prod.case_cong sum.case_cong)
qed

theorem schema_name_unused_without_multiple_witness:
  "\<not> multiple (node (answering dune) ''Book'' book_schema False) \<and>
   build_structured_output
     ((node (answering dune) ''Book'' book_schema False)\<lparr>schema_name := ''''\<rparr>) fresh =
   build_structured_output (node (answering dune) ''Book'' book_schema False) fresh"
proof -
  have h: "\<not> multiple (node (answering dune) ''Book'' book_schema False)"
    by (simp add: node_sel)
  from h schema_name_unused_without_multiple [OF h, of "''''" fresh] show ?thesis
    by simp
qed

text \<open>
  C9 as stated fails: with an empty schema name the method returns an output, both
  without the \<^verbatim>\<open>multiple\<close> flag and with it, where it builds the envelope class with
  the empty name and binds it to the client.
\<close>

theorem empty_schema_name_counterexample:
  "schema_name (node (answering dune) '''' book_schema False) = '''' \<and>
   fst (build_structured_output (node (answering dune) '''' book_schema False) fresh) =
     Inr \<lparr>data = [(''title'', VStr ''Dune''), (''year'', VInt 1965)]\<rparr> \<and>
   build_structured_output (node (answering (books '''')) '''' book_schema True) fresh =
     (Inr \<lparr>data = [(''objects'',
              VList [VDict [(''title'', VStr ''Dune''), (''year'', VInt 1965)],
                     VDict [(''title'', VStr ''Foundation''), (''year'', VInt 1951)]])]\<rparr>,
      \<lparr>classes = [book_model,
         ModelType 1 '''' [FieldInfo ''objects'' (AListOf (AModel book_model)) ''A list of .'']],
       calls = [WithStructuredOutput
                  (ModelType 1 ''''
                     [FieldInfo ''objects'' (AListOf (AModel book_model)) ''A list of .''])
                  ''json_schema'',
                GetChatResult ''Two classics of science fiction''
                  \<lparr>run_name = ''Structured Output'', project_name = ''Library'',
                   callbacks = [Callback 7]\<rparr>]\<rparr>)"
  by (simp add: node_sel book_run books_run books_model_def)


subsection \<open>The keys of the output\<close>

text \<open>
  C1. Without the \<^verbatim>\<open>multiple\<close> flag, for a non-empty schema the Schema Builder accepts,
  when the invocation returns an instance validated against the target class, the method
  returns the mapping that holds the instance's fields, each with its dumped value, and
  the key set of that mapping is exactly the set of the schema's field names.
\<close>

theorem single_output_keys_are_field_names:
  assumes "with_structured_output (llm self) = Some bind"
    and "output_schema self \<noteq> []"
    and "\<not> multiple self"
    and "build_model_from_schema (output_schema self) s = (Inr inner, s1)"
    and "bind inner ''json_schema'' = Inr r"
    and "get_chat_result r (input_value self) (config_dict self) = Inr v"
    and "validated (AModel inner) v"
  shows "\<exists>d kvs. fst (build_structured_output self s) = Inr d \<and>
    v = VModel inner kvs \<and>
    data d = map (\<lambda>kv. (fst kv, dump_value (snd kv))) kvs \<and>
    set (map fst (data d)) = set (map fs_name (output_schema self))"
proof -
  from assms(7) obtain kvs
    where v: "v = VModel inner kvs" and keys: "map fst kvs = map fi_name (mt_fields inner)"
    by (rule validated_AModelD)
  from assms(3) have wrap: "output_model_of self inner s1 = (inner, s1)"
    by (simp add: output_model_of_def)
  let ?d = "\<lparr>data = map (\<lambda>kv. (fst kv, dump_value (snd kv))) kvs\<rparr>"
  have result: "fst (build_structured_output self s) = Inr ?d"
    using build_structured_output_returned [OF assms(1,2,4) wrap assms(5,6)]
    by (simp add: v)
  have dumped: "data ?d = map (\<lambda>kv. (fst kv, dump_value (snd kv))) kvs"
    by simp
  have "map fst (data ?d) = map fst kvs"
    by (simp add: comp_def)
  also have "\<dots> = map fs_name (output_schema self)"
    using keys build_model_from_schema_Inr(1) [OF assms(4)] by simp
  finally have "set (map fst (data ?d)) = set (map fs_name (output_schema self))"
    by (rule arg_cong)
  with result v dumped show ?thesis
    by blast
qed

theorem single_output_keys_are_field_names_witness:
  "\<not> multiple (node (answering dune) ''Book'' book_schema False) \<and>
   validated (AModel book_model) dune \<and>
   fst (build_structured_output (node (answering dune) ''Book'' book_schema False) fresh) =
     Inr \<lparr>data = [(''title'', VStr ''Dune''), (''year'', VInt 1965)]\<rparr> \<and>
   set (map fst [(''title'', VStr ''Dune''), (''year'', VInt 1965)]) =
     set (map fs_name (output_schema (node (answering dune) ''Book'' book_schema False)))"
proof -
  let ?c = "node (answering dune) ''Book'' book_schema False"
  have cap: "with_structured_output (llm ?c) = Some (\<lambda>T m. Inr (\<lambda>inp cfg. Inr dune))"
    by (simp add: node_sel answering_sel)
  have ne: "output_schema ?c \<noteq> []"
    by (simp add: node_sel book_schema_nonempty)
  have single: "\<not> multiple ?c"
    by (simp add: node_sel)
  have built: "build_model_from_schema (output_schema ?c) fresh =
      (Inr book_model, \<lparr>classes = [book_model], calls = []\<rparr>)"
    by (simp add: node_sel book_schema_built)
  have bound: "(\<lambda>T m. Inr (\<lambda>inp cfg. Inr dune)) book_model ''json_schema'' =
      (Inr (\<lambda>inp cfg. Inr dune) :: py_error + runnable)"
    by simp
  have returned: "get_chat_result (\<lambda>inp cfg. Inr dune) (input_value ?c) (config_dict ?c) =
      Inr dune"
    by (simp add: get_chat_result_def)
  from single_output_keys_are_field_names
    [OF cap ne single built bound returned dune_validated]
  obtain d kvs
    where result: "fst (build_structured_output ?c fresh) = Inr d"
      and inst: "dune = VModel book_model kvs"
      and dumped: "data d = map (\<lambda>kv. (fst kv, dump_value (snd kv))) kvs"
      and keys: "set (map fst (data d)) = set (map fs_name (output_schema ?c))"
    by blast
  from inst have "kvs = [(''title'', VStr ''Dune''), (''year'', VInt 1965)]"
    by (simp add: dune_def)
  with dumped have fields: "data d = [(''title'', VStr ''Dune''), (''year'', VInt 1965)]"
    by simp
  then have "d = \<lparr>data = [(''title'', VStr ''Dune''), (''year'', VInt 1965)]\<rparr>"
    by (cases d) simp
  with result keys fields single dune_validated show ?thesis
    by simp
qed

text \<open>
  C2. With the \<^verbatim>\<open>multiple\<close> flag, for a non-empty schema the Schema Builder accepts,
  when the invocation returns an instance validated against the target class, the method
  returns a mapping with the single key \<^verbatim>\<open>objects\<close>; its value is the list of the
  instance's objects, in their order, each dumped to a dictionary whose key set is the set
  of the schema's field names.
\<close>

theorem multiple_output_is_objects_list:
  assumes "with_structured_output (llm self) = Some bind"
    and "output_schema self \<noteq> []"
    and "multiple self"
    and "build_model_from_schema (output_schema self) s = (Inr inner, s1)"
    and "output_model_of self inner s1 = (outer, s2)"
    and "bind outer ''json_schema'' = Inr r"
    and "get_chat_result r (input_value self) (config_dict self) = Inr v"
    and "validated (AModel outer) v"
  shows "\<exists>d vs. fst (build_structured_output self s) = Inr d \<and>
    v = VModel outer [(''objects'', VList vs)] \<and>
    data d = [(''objects'', VList (map dump_value vs))] \<and>
    list_all (keyed_by (map fs_name (output_schema self))) (map dump_value vs)"
proof -
  from assms(3,5) have fields: "mt_fields outer =
      [FieldInfo ''objects'' (AListOf (AModel inner)) (''A list of '' @ schema_name self @ ''.'')]"
    by (auto simp: output_model_of_def create_model_def objects_field_def Let_def)
  from assms(8) obtain kvs
    where v: "v = VModel outer kvs" and keys: "map fst kvs = map fi_name (mt_fields outer)"
      and vals: "list_all (\<lambda>p. validated (fi_annotation (fst p)) (snd (snd p)))
        (zip (mt_fields outer) kvs)"
    by (rule validated_AModelD)
  from keys fields obtain x where kvs: "kvs = [(''objects'', x)]"
    by (cases kvs) auto
  from vals fields kvs have "validated (AListOf (AModel inner)) x"
    by simp
  then obtain vs where x: "x = VList vs" and each: "list_all (validated (AModel inner)) vs"
    by (rule validated_AListOfD)
  have result: "fst (build_structured_output self s) =
      Inr \<lparr>data = [(''objects'', VList (map dump_value vs))]\<rparr>"
    using build_structured_output_returned [OF assms(1,2,4,5,6,7)]
    by (simp add: v kvs x)
  have "list_all (keyed_by (map fi_name (mt_fields inner))) (map dump_value vs)"
    using each by (simp add: list_all_iff dump_value_keyed_by)
  then have "list_all (keyed_by (map fs_name (output_schema self))) (map dump_value vs)"
    by (simp only: build_model_from_schema_Inr(1) [OF assms(4)])
  with result v kvs x show ?thesis
    by simp
qed

theorem multiple_output_is_objects_list_witness:
  "multiple (node (answering (books ''Book'')) ''Book'' book_schema True) \<and>
   validated (AModel (books_model ''Book'')) (books ''Book'') \<and>
   (\<exists>d vs.
      fst (build_structured_output
        (node (answering (books ''Book'')) ''Book'' book_schema True) fresh) = Inr d \<and>
      books ''Book'' = VModel (books_model ''Book'') [(''objects'', VList vs)] \<and>
      data d = [(''objects'', VList (map dump_value vs))] \<and>
      list_all
        (keyed_by (map fs_name
           (output_schema (node (answering (books ''Book'')) ''Book'' book_schema True))))
        (map dump_value vs))"
proof -
  let ?c = "node (answering (books ''Book'')) ''Book'' book_schema True"
  have cap: "with_structured_output (llm ?c) =
      Some (\<lambda>T m. Inr (\<lambda>inp cfg. Inr (books ''Book'')))"
    by (simp add: node_sel answering_sel)
  have ne: "output_schema ?c \<noteq> []"
    by (simp add: node_sel book_schema_nonempty)
  have many: "multiple ?c"
    by (simp add: node_sel)
  have built: "build_model_from_schema (output_schema ?c) fresh =
      (Inr book_model, \<lparr>classes = [book_model], calls = []\<rparr>)"
    by (simp add: node_sel book_schema_built)
  have wrap: "output_model_of ?c book_model \<lparr>classes = [book_model], calls = []\<rparr> =
      (books_model ''Book'', \<lparr>classes = [book_model, books_model ''Book''], calls = []\<rparr>)"
    by (rule books_wrapped)
  have bound: "(\<lambda>T m. Inr (\<lambda>inp cfg. Inr (books ''Book''))) (books_model ''Book'')
      ''json_schema'' = (Inr (\<lambda>inp cfg. Inr (books ''Book'')) :: py_error + runnable)"
    by simp
  have returned: "get_chat_result (\<lambda>inp cfg. Inr (books ''Book'')) (input_value ?c)
      (config_dict ?c) = Inr (books ''Book'')"
    by (simp add: get_chat_result_def)
  from many books_validated [of "''Book''"]
    multiple_output_is_objects_list
      [OF cap ne many built wrap bound returned books_validated]
  show ?thesis
    by simp
qed

subsection \<open>The Schema Builder\<close>

text \<open>
  C8. The Schema Builder, called again with the same Field Specifications, in whatever
  runtime, gives the same error or a class structurally equivalent to the first. It
  calls nothing on the client, and it keeps no class from one call to the next: every
  successful call adds one class, the one it returns, to the runtime.
\<close>

theorem schema_builder_idempotent:
  "rel_sum (=) struct_equiv
     (fst (build_model_from_schema schema s)) (fst (build_model_from_schema schema t)) \<and>
   calls (snd (build_model_from_schema schema s)) = calls s \<and>
   classes (snd (build_model_from_schema schema s)) =
     classes s @ (case fst (build_model_from_schema schema s) of Inr T \<Rightarrow> [T] | Inl e \<Rightarrow> [])"
  by (cases "build_fields schema")
    (simp_all add: build_model_from_schema_def create_model_def struct_equiv_def Let_def)

text \<open>
  Two calls in a row on the schema of the scenarios: the two classes are structurally
  equivalent and are not the same class.
\<close>

theorem schema_builder_idempotent_witness:
  "rel_sum (=) struct_equiv
     (fst (build_model_from_schema book_schema fresh))
     (fst (build_model_from_schema book_schema (snd (build_model_from_schema book_schema fresh)))) \<and>
   fst (build_model_from_schema book_schema fresh) = Inr book_model \<and>
   fst (build_model_from_schema book_schema (snd (build_model_from_schema book_schema fresh))) =
     Inr (ModelType 1 ''OutputModel'' (mt_fields book_model)) \<and>
   book_model \<noteq> ModelType 1 ''OutputModel'' (mt_fields book_model)"
proof -
  have first: "fst (build_model_from_schema book_schema fresh) = Inr book_model"
    by (simp add: book_schema_built)
  have second: "fst (build_model_from_schema book_schema
      (snd (build_model_from_schema book_schema fresh))) =
      Inr (ModelType 1 ''OutputModel'' (mt_fields book_model))"
    by (simp add: book_schema_built book_schema_built_again)
  have distinct: "book_model \<noteq> ModelType 1 ''OutputModel'' (mt_fields book_model)"
    by (simp add: book_model_def)
  from schema_builder_idempotent [of book_schema fresh
      "snd (build_model_from_schema book_schema fresh)"] first second distinct
  show ?thesis
    by blast
qed

end
